theory Spec2Isabelle
  imports Main
begin

section \<open>HomeyPrayersWeb: the HTTP-style exceptions\<close>

text \<open>
  The exception module declares \<open>HttpException extends Error\<close> and five subclasses.
  A JavaScript error object is modelled by the properties the module can set on it: the
  class it was constructed with, its \<open>message\<close>, and its \<open>status\<close> property, which
  is \<open>None\<close> as long as no code assigns it (reading it gives \<open>undefined\<close>).
\<close>

datatype error_class =
    Cls_Error
  | Cls_TypeError
  | Cls_HttpException
  | Cls_UserWithThatEmailAlreadyExistsException
  | Cls_WrongCredentialsException
  | Cls_PostNotFoundException
  | Cls_AuthenticationTokenMissingException
  | Cls_WrongAuthenticationTokenException

record js_error =
  cls :: error_class
  message :: string
  status :: "int option"

text \<open>
  \<open>class Error\<close>: \<open>super(message)\<close> stores the message and nothing else. The first
  argument is the class named in the \<open>new\<close> expression.
\<close>

definition Error_new :: "error_class \<Rightarrow> string \<Rightarrow> js_error" where
  "Error_new c msg = \<lparr>cls = c, message = msg, status = None\<rparr>"

text \<open>
  \<open>constructor(status, message) { super(message); }\<close>: the body of the constructor
  is the call of the super constructor; \<open>st\<close> does not occur in it.
\<close>

definition HttpException_new :: "error_class \<Rightarrow> int \<Rightarrow> string \<Rightarrow> js_error" where
  "HttpException_new c st msg = Error_new c msg"

definition HttpException :: "int \<Rightarrow> string \<Rightarrow> js_error" where
  "HttpException st msg = HttpException_new Cls_HttpException st msg"

text \<open>
  The subclasses. Each takes the status it hands to \<open>super\<close> as a parameter of the
  \<open>_with\<close> form, so that the effect of the literal \<open>404\<close> of the source can be
  stated; the constructor of the source is the instance at 404.
\<close>

definition UserWithThatEmailAlreadyExistsException_with :: "int \<Rightarrow> string \<Rightarrow> js_error" where
  "UserWithThatEmailAlreadyExistsException_with st email =
     HttpException_new Cls_UserWithThatEmailAlreadyExistsException st
       (''user with email '' @ email @ '' not found'')"

definition WrongCredentialsException_with :: "int \<Rightarrow> js_error" where
  "WrongCredentialsException_with st =
     HttpException_new Cls_WrongCredentialsException st ''Wrong Password provided''"

definition PostNotFoundException_with :: "int \<Rightarrow> string \<Rightarrow> js_error" where
  "PostNotFoundException_with st ident =
     HttpException_new Cls_PostNotFoundException st (''Post with id '' @ ident @ '' not found'')"

definition AuthenticationTokenMissingException_with :: "int \<Rightarrow> js_error" where
  "AuthenticationTokenMissingException_with st =
     HttpException_new Cls_AuthenticationTokenMissingException st ''Authentication Token Missing''"

definition WrongAuthenticationTokenException_with :: "int \<Rightarrow> js_error" where
  "WrongAuthenticationTokenException_with st =
     HttpException_new Cls_WrongAuthenticationTokenException st ''Authentication Token Missing''"

definition UserWithThatEmailAlreadyExistsException :: "string \<Rightarrow> js_error" where
  "UserWithThatEmailAlreadyExistsException email =
     UserWithThatEmailAlreadyExistsException_with 404 email"

definition WrongCredentialsException :: js_error where
  "WrongCredentialsException = WrongCredentialsException_with 404"

definition PostNotFoundException :: "string \<Rightarrow> js_error" where
  "PostNotFoundException ident = PostNotFoundException_with 404 ident"

definition AuthenticationTokenMissingException :: js_error where
  "AuthenticationTokenMissingException = AuthenticationTokenMissingException_with 404"

definition WrongAuthenticationTokenException :: js_error where
  "WrongAuthenticationTokenException = WrongAuthenticationTokenException_with 404"


section \<open>Paths\<close>

text \<open>
  Node's \<open>path.join\<close> and \<open>path.normalize\<close> on POSIX, which the router and the
  controller use to build file names: the non-empty arguments are joined with \<open>/\<close> and
  the result is normalised (empty and \<open>.\<close> segments dropped, \<open>..\<close> resolved, a
  trailing slash kept).
\<close>

fun split_on :: "char \<Rightarrow> string \<Rightarrow> string list" where
  "split_on c [] = [[]]"
| "split_on c (x # xs) =
     (if x = c then [] # split_on c xs
      else (case split_on c xs of s # ss \<Rightarrow> (x # s) # ss | [] \<Rightarrow> [[x]]))"

fun join_with :: "string \<Rightarrow> string list \<Rightarrow> string" where
  "join_with sep [] = []"
| "join_with sep [s] = s"
| "join_with sep (s # t # ss) = s @ sep @ join_with sep (t # ss)"

fun normalizeString :: "bool \<Rightarrow> string list \<Rightarrow> string list \<Rightarrow> string list" where
  "normalizeString allowAboveRoot res [] = rev res"
| "normalizeString allowAboveRoot res (s # ss) =
     (if s = [] \<or> s = ''.'' then normalizeString allowAboveRoot res ss
      else if s = ''..'' then
        (case res of
           [] \<Rightarrow> normalizeString allowAboveRoot (if allowAboveRoot then [s] else []) ss
         | r # rs \<Rightarrow>
             if r \<noteq> ''..'' then normalizeString allowAboveRoot rs ss
             else normalizeString allowAboveRoot (if allowAboveRoot then s # res else res) ss)
      else normalizeString allowAboveRoot (s # res) ss)"

definition ends_with_slash :: "string \<Rightarrow> bool" where
  "ends_with_slash p = (p \<noteq> [] \<and> last p = CHR ''/'')"

definition isAbsolute :: "string \<Rightarrow> bool" where
  "isAbsolute p = (p \<noteq> [] \<and> hd p = CHR ''/'')"

definition path_normalize :: "string \<Rightarrow> string" where
  "path_normalize p =
     (if p = [] then ''.''
      else
        let q = join_with ''/'' (normalizeString (\<not> isAbsolute p) [] (split_on CHR ''/'' p))
        in if q = [] then (if isAbsolute p then ''/'' else if ends_with_slash p then ''./'' else ''.'')
           else (if isAbsolute p then ''/'' else []) @ q @ (if ends_with_slash p then ''/'' else []))"

definition path_join :: "string list \<Rightarrow> string" where
  "path_join args =
     (let joined = join_with ''/'' (filter (\<lambda>a. a \<noteq> []) args)
      in if joined = [] then ''.'' else path_normalize joined)"

section \<open>Configuration, requests and responses\<close>

text \<open>
  The keys of \<open>config/default.json\<close> that the server reads through \<open>nconf.get\<close>,
  with the types the TypeScript source gives the fields they are stored in.
\<close>

record config =
  WEBROOT :: string
  STATIC_FILES :: string
  PORT :: int
  MAIN_FILE_URL :: string
  MAIN_FILE_PATH :: string
  MAIN_FILE_NAME :: string

text \<open>
  A request is its method and the path of its request target as the client sent it
  (not decoded, without the query string), one \<open>char\<close> for each character of
  \<open>req.url\<close>. Conditional and range headers are outside the model, and so are the
  methods HEAD and OPTIONS, which Express answers in ways of its own. A response is its
  status code and its body: the content of a file that was sent, or a page the framework
  generated.
\<close>

datatype http_method = GET | POST | PUT | DELETE | PATCH

record request =
  req_method :: http_method
  req_path :: string

datatype payload = Content string | Generated

record response =
  statusCode :: nat
  body :: payload

text \<open>
  What a middleware or a route handler does with a request: it answers, it passes the
  request on with \<open>next()\<close>, or, before it has answered, it throws (or calls
  \<open>next(err)\<close>). A handler that is an \<open>async\<close> function can also fail after it has
  returned: \<open>Reject\<close> is the rejection of the promise it returned.
\<close>

datatype outcome = Respond response | Next | Throw js_error | Reject js_error

text \<open>
  The files the server can read, by normalised path without a trailing slash; a
  relative path stands for the path below the working directory of the process, as it
  does for the file system. Every file that exists can be read.
\<close>

datatype fsnode = File string | Directory

type_synonym filesystem = "string \<Rightarrow> fsnode option"

text \<open>
  \<open>fs.stat\<close>: a path with a trailing slash names a directory or nothing.
\<close>

definition stat :: "filesystem \<Rightarrow> string \<Rightarrow> fsnode option" where
  "stat fs p =
     (if ends_with_slash p \<and> p \<noteq> ''/'' then
        (case fs (butlast p) of Some Directory \<Rightarrow> Some Directory | _ \<Rightarrow> None)
      else fs p)"

text \<open>
  \<open>path.resolve\<close> of one path: the path normalised, without a trailing slash.
\<close>

definition path_resolve :: "string \<Rightarrow> string" where
  "path_resolve p =
     (let q = path_normalize p in if ends_with_slash q \<and> q \<noteq> ''/'' then butlast q else q)"

section \<open>The Express operations the application calls\<close>

text \<open>
  The application is composed from Express 4 and its \<open>serve-static\<close> and \<open>send\<close>
  modules, on a POSIX system. This section writes down their behaviour as far as the
  application relies on it, for route and mount paths that are literal paths (no
  parameters, wildcards or other pattern characters).
\<close>

subsection \<open>\<open>decodeURIComponent\<close>\<close>

text \<open>
  \<open>send\<close> decodes the path it is given with \<open>decodeURIComponent\<close>. An escape
  \<open>%XX\<close> stands for an octet; the octets of one character must be escaped together
  and be well-formed UTF-8, or the decoding fails (\<open>None\<close>, a \<open>URIError\<close>). The
  result is given as the octets that name the file: a character of the path above
  \<open>0x7F\<close> that was not escaped is written as its two octets.
\<close>

definition hex_digit :: "char \<Rightarrow> nat option" where
  "hex_digit c =
     (let n = (of_char c :: nat) in
      if 48 \<le> n \<and> n \<le> 57 then Some (n - 48)
      else if 65 \<le> n \<and> n \<le> 70 then Some (n - 55)
      else if 97 \<le> n \<and> n \<le> 102 then Some (n - 87)
      else None)"

fun read_escapes :: "nat \<Rightarrow> string \<Rightarrow> nat list option" where
  "read_escapes 0 s = Some []"
| "read_escapes (Suc n) (c # h # l # rest) =
     (if c = CHR ''%'' then
        (case (hex_digit h, hex_digit l) of
           (Some a, Some b) \<Rightarrow> map_option ((#) (16 * a + b)) (read_escapes n rest)
         | _ \<Rightarrow> None)
      else None)"
| "read_escapes (Suc n) s = None"

definition continuation :: "nat \<Rightarrow> bool" where
  "continuation b = (128 \<le> b \<and> b \<le> 191)"

fun well_formed_utf8 :: "nat list \<Rightarrow> bool" where
  "well_formed_utf8 [a] = (a < 128)"
| "well_formed_utf8 [a, b] = (194 \<le> a \<and> a \<le> 223 \<and> continuation b)"
| "well_formed_utf8 [a, b, c] =
     (224 \<le> a \<and> a \<le> 239
      \<and> (if a = 224 then 160 \<le> b \<and> b \<le> 191
          else if a = 237 then 128 \<le> b \<and> b \<le> 159
          else continuation b)
      \<and> continuation c)"
| "well_formed_utf8 [a, b, c, d] =
     (240 \<le> a \<and> a \<le> 244
      \<and> (if a = 240 then 144 \<le> b \<and> b \<le> 191
          else if a = 244 then 128 \<le> b \<and> b \<le> 143
          else continuation b)
      \<and> continuation c \<and> continuation d)"
| "well_formed_utf8 octets = False"

definition sequence_length :: "nat \<Rightarrow> nat" where
  "sequence_length b =
     (if b < 128 then 1
      else if 192 \<le> b \<and> b < 224 then 2
      else if 224 \<le> b \<and> b < 240 then 3
      else if 240 \<le> b \<and> b < 248 then 4
      else 0)"

definition unescaped :: "char \<Rightarrow> string" where
  "unescaped c =
     (let n = (of_char c :: nat) in
      if n < 128 then [c] else [char_of (192 + n div 64), char_of (128 + n mod 64)])"

fun decodeURIComponent :: "string \<Rightarrow> string option" where
  "decodeURIComponent [] = Some []"
| "decodeURIComponent (c # cs) =
     (if c \<noteq> CHR ''%'' then map_option ((@) (unescaped c)) (decodeURIComponent cs)
      else
        (case read_escapes 1 (c # cs) of
           Some [b] \<Rightarrow>
             (case read_escapes (sequence_length b) (c # cs) of
                Some octets \<Rightarrow>
                  if sequence_length b \<noteq> 0 \<and> well_formed_utf8 octets then
                    map_option ((@) (map char_of octets))
                      (decodeURIComponent (drop (3 * sequence_length b - 1) cs))
                  else None
              | None \<Rightarrow> None)
         | _ \<Rightarrow> None))"

subsection \<open>\<open>express.static(root, options)\<close>\<close>

datatype dotfiles_mode = Allow | Deny | Ignore

text \<open>
  The options of \<open>serve-static\<close> that the application names. \<open>dotfiles = None\<close> is an
  options object without the key, \<open>index = None\<close> stands for \<open>index: false\<close>, and
  \<open>setHeaders\<close> lists the headers the callback sets. The fields \<open>etag\<close>,
  \<open>maxAge\<close> and \<open>setHeaders\<close> only shape response headers, which the response type
  does not carry.
\<close>

record static_options =
  dotfiles :: "dotfiles_mode option"
  etag :: bool
  extensions :: "string list"
  index :: "string option"
  maxAge :: string
  redirect :: bool
  setHeaders :: "string list"

text \<open>What \<open>serve-static\<close> takes for the options when no options object is passed.\<close>

definition static_defaults :: static_options where
  "static_defaults =
     \<lparr>dotfiles = None, etag = True, extensions = [], index = Some ''index.html'',
      maxAge = ''0'', redirect = True, setHeaders = []\<rparr>"

definition containsDotFile :: "string list \<Rightarrow> bool" where
  "containsDotFile parts = list_ex (\<lambda>part. length part > 1 \<and> hd part = CHR ''.'') parts"

text \<open>
  Whether \<open>send\<close> hides a path with the segments \<open>parts\<close>. With \<open>dotfiles\<close> set
  to \<open>ignore\<close> or \<open>deny\<close> it hides every path that has a dot segment; without the
  option it keeps to its older rule and hides the path only when the last segment starts
  with a dot.
\<close>

definition hides :: "dotfiles_mode option \<Rightarrow> string list \<Rightarrow> bool" where
  "hides mode parts =
     (containsDotFile parts
      \<and> (case mode of
           None \<Rightarrow> last parts \<noteq> [] \<and> hd (last parts) = CHR ''.''
         | Some Allow \<Rightarrow> False
         | Some Deny \<Rightarrow> True
         | Some Ignore \<Rightarrow> True))"

definition extname_present :: "string \<Rightarrow> bool" where
  "extname_present p = list_ex (\<lambda>c. c = CHR ''.'') (tl (last (split_on CHR ''/'' p)))"

text \<open>
  \<open>send\<close> normalises the decoded path relative to the root and refuses a path in which
  a segment \<open>..\<close> remains, where a slash or a backslash ends a segment.
\<close>

definition relative_path :: "string \<Rightarrow> string" where
  "relative_path path = (if path = [] then [] else path_normalize (''./'' @ path))"

fun split_where :: "(char \<Rightarrow> bool) \<Rightarrow> string \<Rightarrow> string list" where
  "split_where sep [] = [[]]"
| "split_where sep (x # xs) =
     (if sep x then [] # split_where sep xs
      else (case split_where sep xs of s # ss \<Rightarrow> (x # s) # ss | [] \<Rightarrow> [[x]]))"

definition leaves_root :: "string \<Rightarrow> bool" where
  "leaves_root p =
     list_ex (\<lambda>part. part = ''..'') (split_where (\<lambda>c. c = CHR ''/'' \<or> c = CHR 0x5C) p)"

text \<open>The file that \<open>send\<close> looks up for the decoded path below the root.\<close>

definition static_file :: "string \<Rightarrow> string \<Rightarrow> string" where
  "static_file root path = path_join [path_resolve root, relative_path path]"

fun try_extensions :: "filesystem \<Rightarrow> string \<Rightarrow> string list \<Rightarrow> outcome" where
  "try_extensions fs p [] = Next"
| "try_extensions fs p (e # es) =
     (case stat fs (p @ ''.'' @ e) of
        Some (File c) \<Rightarrow> Respond \<lparr>statusCode = 200, body = Content c\<rparr>
      | _ \<Rightarrow> try_extensions fs p es)"

text \<open>
  The middleware that \<open>express.static root opts\<close> returns, applied to a request with
  method \<open>meth\<close>, original path \<open>original\<close> and path \<open>url\<close> below the mount point.
  With the default \<open>fallthrough\<close>, every client error of \<open>send\<close> (400 for a path that
  cannot be decoded or holds a NUL, 403 for a path that leaves the root, 404 for a hidden
  or missing file) becomes \<open>next()\<close>.
\<close>

definition express_static ::
  "filesystem \<Rightarrow> string \<Rightarrow> static_options option \<Rightarrow> http_method \<Rightarrow> string \<Rightarrow> string \<Rightarrow> outcome" where
  "express_static fs root opts meth original url =
     (let opt = (case opts of None \<Rightarrow> static_defaults | Some given \<Rightarrow> given) in
      if meth \<noteq> GET then Next
      else
        let sent = (if url = ''/'' \<and> \<not> ends_with_slash original then [] else url) in
        (case decodeURIComponent sent of
           None \<Rightarrow> Next
         | Some path \<Rightarrow>
             let parts = split_on CHR ''/'' (relative_path path);
                 full = static_file root path
             in if CHR 0x00 \<in> set path then Next
                else if leaves_root (relative_path path) then Next
                else if hides (dotfiles opt) parts then Next
                else if index opt \<noteq> None \<and> ends_with_slash sent then
                  (case index opt of
                     Some ix \<Rightarrow>
                       (case stat fs (path_join [full, ix]) of
                          Some (File c) \<Rightarrow> Respond \<lparr>statusCode = 200, body = Content c\<rparr>
                        | _ \<Rightarrow> Next)
                   | None \<Rightarrow> Next)
                else
                  (case stat fs full of
                     Some (File c) \<Rightarrow> Respond \<lparr>statusCode = 200, body = Content c\<rparr>
                   | Some Directory \<Rightarrow>
                       if redirect opt \<and> \<not> ends_with_slash sent
                       then Respond \<lparr>statusCode = 301, body = Generated\<rparr>
                       else Next
                   | None \<Rightarrow>
                       if extname_present full \<or> ends_with_slash full then Next
                       else try_extensions fs full (extensions opt))))"

subsection \<open>\<open>response.sendFile(path, options)\<close>\<close>

text \<open>
  \<open>res.sendFile\<close> without a callback, with the options of the call in the controller
  (\<open>index: false, dotfiles: "allow", redirect: true\<close>): a path that is not absolute
  is a \<open>TypeError\<close>; a file is sent with status 200; a directory becomes \<open>next()\<close>;
  every error of \<open>send\<close> becomes \<open>next(err)\<close> with the status of the error, 400 for
  a NUL in the path, 403 for a segment \<open>..\<close>, 404 for a missing file.
\<close>

definition send_error :: "int \<Rightarrow> string \<Rightarrow> js_error" where
  "send_error code msg = (Error_new Cls_Error msg)\<lparr>status := Some code\<rparr>"

definition res_sendFile :: "filesystem \<Rightarrow> string \<Rightarrow> outcome" where
  "res_sendFile fs p =
     (if p = [] then Throw (Error_new Cls_TypeError ''path argument is required to res.sendFile'')
      else if \<not> isAbsolute p then
        Throw (Error_new Cls_TypeError ''path must be absolute or specify root to res.sendFile'')
      else if CHR 0x00 \<in> set p then Throw (send_error 400 ''Bad Request'')
      else if leaves_root p then Throw (send_error 403 ''Forbidden'')
      else
        (case stat fs (path_resolve p) of
           Some (File c) \<Rightarrow> Respond \<lparr>statusCode = 200, body = Content c\<rparr>
         | Some Directory \<Rightarrow> Next
         | None \<Rightarrow> Throw (send_error 404 ''Not Found'')))"

subsection \<open>Routers, layers and the application object\<close>

text \<open>
  A router holds its routes in the order they were added; a route handler reads the file
  system when it runs. \<open>IController\<close> declares the two members \<open>path\<close> and
  \<open>router\<close>.
\<close>

datatype route = Route http_method string "filesystem \<Rightarrow> request \<Rightarrow> outcome"


record controller =
  path :: string
  router :: "route list"

text \<open>
  What \<open>app.use\<close> can be given in this application: a static middleware, a router, or
  the error-handling middleware of \<open>ExceptionMiddleware\<close>.
\<close>

datatype middleware =
    Static string "static_options option"
  | Router "route list"
  | ErrorMiddleware

record layer =
  mount :: string
  handle :: middleware

definition toLowerCase :: "char \<Rightarrow> char" where
  "toLowerCase c =
     (case map_of (zip ''ABCDEFGHIJKLMNOPQRSTUVWXYZ'' ''abcdefghijklmnopqrstuvwxyz'') c of
        Some l \<Rightarrow> l
      | None \<Rightarrow> c)"

text \<open>
  Express compiles a route or mount path into a regular expression. A path is literal,
  and matches only itself, when it is made of ASCII characters none of which the
  compilation gives a meaning of its own.
\<close>

definition pattern_characters :: string where
  "pattern_characters = CHR 0x5C # ''()[]{}|^$?+*:''"

definition literal_path :: "string \<Rightarrow> bool" where
  "literal_path p =
     list_all (\<lambda>c. (of_char c :: nat) < 128 \<and> \<not> List.member pattern_characters c) p"


definition strip_slash :: "string \<Rightarrow> string" where
  "strip_slash p = (if ends_with_slash p then butlast p else p)"

text \<open>
  A layer added by \<open>use\<close> matches a request path that begins with its mount path, up
  to a segment boundary and without regard to case. One slash after the mount path
  belongs to the match when a slash or the end of the path follows it. The handler sees
  the rest of the path, with a slash put in front where it does not begin with one. The
  mount path \<open>/\<close> matches every request and leaves its path as it is.
\<close>

definition mount_match :: "string \<Rightarrow> string \<Rightarrow> string option" where
  "mount_match m p =
     (if m = ''/'' then Some p
      else
        let m' = strip_slash m; n = length m' in
        if map toLowerCase (take n p) = map toLowerCase m'
           \<and> (length p \<le> n \<or> p ! n = CHR ''/'')
        then
          let k = (if n < length p \<and> (Suc n = length p \<or> p ! Suc n = CHR ''/'')
                   then Suc n else n);
              rest = drop k p
          in Some (if rest = [] \<or> hd rest \<noteq> CHR ''/'' then CHR ''/'' # rest else rest)
        else None)"

text \<open>
  A route added by \<open>router.get\<close> matches the whole path without regard to case: the
  route path itself, with or without its last slash, or with one slash added.
\<close>

definition route_match :: "string \<Rightarrow> string \<Rightarrow> bool" where
  "route_match rp p =
     (map toLowerCase p = map toLowerCase (strip_slash rp)
      \<or> map toLowerCase p = map toLowerCase (strip_slash rp @ ''/''))"

fun run_router :: "filesystem \<Rightarrow> route list \<Rightarrow> request \<Rightarrow> outcome" where
  "run_router fs [] req = Next"
| "run_router fs (Route m rp h # rs) req =
     (if m = req_method req \<and> route_match rp (req_path req) then
        (case h fs req of Next \<Rightarrow> run_router fs rs req | out \<Rightarrow> out)
      else run_router fs rs req)"

text \<open>
  Modelled from the spec: \<open>ExceptionMiddleware.errorMiddleware\<close>
  (\<open>middlewares/exceptions.middleware.js\<close>) is not among the sources. The spec calls
  it a catch-all error middleware that translates uncaught exceptions into HTTP error
  responses. Which response an exception is translated to is left open, as the
  parameter \<open>translate\<close>; that the response is an error response is kept by
  \<open>error_response\<close>, which leaves every response with a 4xx or 5xx status as it is.
\<close>

definition error_response :: "response \<Rightarrow> response" where
  "error_response r =
     (if 400 \<le> statusCode r \<and> statusCode r < 600 then r else r\<lparr>statusCode := 500\<rparr>)"

definition errorMiddleware ::
  "(js_error \<Rightarrow> request \<Rightarrow> response) \<Rightarrow> js_error \<Rightarrow> request \<Rightarrow> outcome" where
  "errorMiddleware translate err req = Respond (error_response (translate err req))"

text \<open>
  Express takes a middleware function of four parameters for an error handler
  (\<open>fn.length === 4\<close>); of the three kinds of middleware only the error middleware
  is one.
\<close>

fun handles_error :: "middleware \<Rightarrow> bool" where
  "handles_error (Static root opts) = False"
| "handles_error (Router routes) = False"
| "handles_error ErrorMiddleware = True"

definition run_middleware :: "filesystem \<Rightarrow> middleware \<Rightarrow> request \<Rightarrow> string \<Rightarrow> outcome" where
  "run_middleware fs mw req url =
     (case mw of
        Static root opts \<Rightarrow> express_static fs root opts (req_method req) (req_path req) url
      | Router routes \<Rightarrow> run_router fs routes (req\<lparr>req_path := url\<rparr>)
      | ErrorMiddleware \<Rightarrow> Next)"

text \<open>
  What Express answers when the stack is exhausted: 404 for a request nobody answered,
  and for an error nobody handled the status of the error (when it is a 4xx or 5xx
  status) or 500.
\<close>

definition finalhandler :: "js_error option \<Rightarrow> response" where
  "finalhandler err =
     (case err of
        None \<Rightarrow> \<lparr>statusCode = 404, body = Generated\<rparr>
      | Some e \<Rightarrow>
          \<lparr>statusCode =
             (case status e of
                Some s \<Rightarrow> if 400 \<le> s \<and> s < 600 then nat s else 500
              | None \<Rightarrow> 500),
           body = Generated\<rparr>)"

text \<open>
  The walk of a request through a stack of layers, as \<open>next\<close> makes it. \<open>err\<close> is
  the pending error: without one the error-handling middleware is skipped; once a
  handler has thrown, every layer but an error-handling middleware is skipped. The walk
  ends with the response of the layer that answered, or at the end of the stack with the
  pending error, or with a handler whose promise was rejected: Express 4 does not look at
  the promise, so nobody calls \<open>next\<close> and nobody answers.
\<close>

datatype walk = Answered response | Unanswered "js_error option" | Abandoned js_error

fun router_handle ::
  "(js_error \<Rightarrow> request \<Rightarrow> response) \<Rightarrow> filesystem \<Rightarrow> layer list \<Rightarrow> js_error option
     \<Rightarrow> request \<Rightarrow> walk" where
  "router_handle translate fs [] err req = Unanswered err"
| "router_handle translate fs (l # ls) err req =
     (case mount_match (mount l) (req_path req) of
        None \<Rightarrow> router_handle translate fs ls err req
      | Some url \<Rightarrow>
          (case err of
             Some e \<Rightarrow>
               (if handles_error (handle l) then
                  (case errorMiddleware translate e req of
                     Respond r \<Rightarrow> Answered r
                   | Next \<Rightarrow> router_handle translate fs ls None req
                   | Throw e' \<Rightarrow> router_handle translate fs ls (Some e') req
                   | Reject e' \<Rightarrow> Abandoned e')
                else router_handle translate fs ls err req)
           | None \<Rightarrow>
               (if handles_error (handle l) then router_handle translate fs ls err req
                else
                  (case run_middleware fs (handle l) req url of
                     Respond r \<Rightarrow> Answered r
                   | Next \<Rightarrow> router_handle translate fs ls None req
                   | Throw e \<Rightarrow> router_handle translate fs ls (Some e) req
                   | Reject e \<Rightarrow> Abandoned e))))"

text \<open>
  \<open>app.handle\<close>: the walk through the stack, with the final handler at its end. A
  request is answered with a response, or it is never answered because the promise of a
  handler was rejected and nothing handles the rejection (which ends the process on
  Node 15 and later).
\<close>

datatype reply = Reply response | Unhandled_rejection js_error

definition app_handle ::
  "(js_error \<Rightarrow> request \<Rightarrow> response) \<Rightarrow> filesystem \<Rightarrow> layer list \<Rightarrow> request \<Rightarrow> reply" where
  "app_handle translate fs stack req =
     (case router_handle translate fs stack None req of
        Answered r \<Rightarrow> Reply r
      | Unanswered err \<Rightarrow> Reply (finalhandler err)
      | Abandoned e \<Rightarrow> Unhandled_rejection e)"

section \<open>The controller of the main page\<close>

text \<open>
  \<open>MainController\<close>. \<open>dirname\<close> is the \<open>__dirname\<close> of the compiled controller
  module. The constructor reads \<open>MAIN_FILE_URL\<close> into \<open>path\<close>, creates the router and
  joins \<open>__dirname\<close>, \<open>MAIN_FILE_PATH\<close> and \<open>MAIN_FILE_NAME\<close> into \<open>_filePath\<close>
  (\<open>_rootPath\<close> is assigned and never read). The handler \<open>mainPageRoute\<close> sends the
  file at \<open>_filePath\<close>; \<open>initializeRoutes\<close> registers it for GET at \<open>this.path\<close>.
\<close>

definition mainPageRoute :: "string \<Rightarrow> filesystem \<Rightarrow> request \<Rightarrow> outcome" where
  "mainPageRoute filePath fs request = res_sendFile fs filePath"

definition initializeRoutes :: "string \<Rightarrow> controller \<Rightarrow> controller" where
  "initializeRoutes filePath this =
     this\<lparr>router := router this @ [Route GET (path this) (mainPageRoute filePath)]\<rparr>"

definition MainController_filePath :: "string \<Rightarrow> config \<Rightarrow> string" where
  "MainController_filePath dirname cfg =
     path_join [dirname, MAIN_FILE_PATH cfg, MAIN_FILE_NAME cfg]"

definition MainController_new :: "string \<Rightarrow> config \<Rightarrow> controller" where
  "MainController_new dirname cfg =
     initializeRoutes (MainController_filePath dirname cfg)
       \<lparr>path = MAIN_FILE_URL cfg, router = []\<rparr>"

section \<open>The application object\<close>

text \<open>
  \<open>class App\<close>. The field \<open>app\<close> is the Express application, modelled by its stack
  of layers in the order of the \<open>use\<close> calls (the two layers that Express puts in
  front of them, for the query string and for its own initialisation, pass every request
  on and are left out); \<open>excpetionMiddleware\<close> tells whether the
  \<open>ExceptionMiddleware\<close> object has been created.
\<close>

record App =
  app :: "layer list"
  port :: int
  excpetionMiddleware :: bool
  mainFolder :: string
  stataicFolder :: string

definition express :: "layer list" where
  "express = []"

definition app_use :: "string \<Rightarrow> middleware \<Rightarrow> App \<Rightarrow> App" where
  "app_use m mw this = this\<lparr>app := app this @ [\<lparr>mount = m, handle = mw\<rparr>]\<rparr>"

text \<open>
  The sources hold two revisions of \<open>initializeMiddlewares\<close>, alike but for one line:
  in the compiled \<open>settings/routes/main.router.js\<close> the call
  \<open>this.app.use(express.static("build/web_modules"))\<close> is commented out, in the
  TypeScript source of the router it is not.
\<close>

datatype revision = Settings_js | Source_ts

text \<open>The object literal that \<open>initializeMiddlewares\<close> binds to \<open>options\<close>.\<close>

definition options :: static_options where
  "options =
     \<lparr>dotfiles = Some Ignore, etag = False, extensions = [''js'', ''json''], index = None,
      maxAge = ''1d'', redirect = False, setHeaders = [''x-timestamp'']\<rparr>"

text \<open>
  \<open>initializeMiddlewares\<close>, with the value of its local variable \<open>options\<close> as the
  parameter \<open>opts\<close>, so that its part in the result can be stated; the method of the
  source is the instance at the literal above.
\<close>

definition initializeMiddlewares_with ::
  "static_options \<Rightarrow> revision \<Rightarrow> config \<Rightarrow> App \<Rightarrow> App" where
  "initializeMiddlewares_with opts rv cfg this =
     (let folderPath = path_join [mainFolder this, stataicFolder this];
          this1 = app_use (MAIN_FILE_URL cfg) (Static folderPath None) this
      in case rv of
           Settings_js \<Rightarrow> this1
         | Source_ts \<Rightarrow> app_use ''/'' (Static ''build/web_modules'' None) this1)"

definition initializeMiddlewares :: "revision \<Rightarrow> config \<Rightarrow> App \<Rightarrow> App" where
  "initializeMiddlewares rv cfg this = initializeMiddlewares_with options rv cfg this"

definition initializeDatabase :: "App \<Rightarrow> App" where
  "initializeDatabase this = this"

definition initializeAuthenticators :: "App \<Rightarrow> App" where
  "initializeAuthenticators this = this"

definition initializeControllers :: "controller list \<Rightarrow> App \<Rightarrow> App" where
  "initializeControllers controllers this =
     foldl (\<lambda>t c. app_use ''/'' (Router (router c)) t) this controllers"

definition initializeErrorMiddleware :: "App \<Rightarrow> App" where
  "initializeErrorMiddleware this =
     app_use ''/'' ErrorMiddleware (this\<lparr>excpetionMiddleware := True\<rparr>)"

text \<open>
  The constructor: the fields it assigns, then the five initialisation calls in the order
  of the source.
\<close>

definition App_fields :: "config \<Rightarrow> App" where
  "App_fields cfg =
     \<lparr>app = express, port = PORT cfg, excpetionMiddleware = False,
      mainFolder = WEBROOT cfg, stataicFolder = STATIC_FILES cfg\<rparr>"

definition App_new_with ::
  "static_options \<Rightarrow> revision \<Rightarrow> config \<Rightarrow> controller list \<Rightarrow> App" where
  "App_new_with opts rv cfg controllers =
     (let this = App_fields cfg;
          this = initializeDatabase this;
          this = initializeMiddlewares_with opts rv cfg this;
          this = initializeAuthenticators this;
          this = initializeControllers controllers this;
          this = initializeErrorMiddleware this
      in this)"

definition App_new :: "revision \<Rightarrow> config \<Rightarrow> controller list \<Rightarrow> App" where
  "App_new rv cfg controllers = App_new_with options rv cfg controllers"

text \<open>The answer of the listening application to one request.\<close>

definition serve ::
  "(js_error \<Rightarrow> request \<Rightarrow> response) \<Rightarrow> filesystem \<Rightarrow> App \<Rightarrow> request \<Rightarrow> reply" where
  "serve translate fs this req = app_handle translate fs (app this) req"

section \<open>Process bootstrap\<close>

text \<open>
  The entry module and the process it runs in. The process is modelled by what the
  application can observe of it and change in it: the values written to the console, the
  server whose SIGINT handler is registered, whether the listener accepts connections,
  the number of open connections, the callbacks that wait for the listener's
  \<open>close\<close> event, and how the process ended, if it has.
\<close>

record server =
  server_stack :: "layer list"
  server_port :: int

datatype logged = Logged_error js_error | Logged_text string

datatype exit_status = Exited int | Killed_by_signal

text \<open>The statements that a callback of this application runs.\<close>

datatype action = Log string | Exit int

record proc =
  console :: "logged list"
  sigint :: "server option"
  accepting :: bool
  connections :: nat
  close_callbacks :: "action list list"
  exit_status :: "exit_status option"

datatype completion = Returned proc | Uncaught js_error proc

definition console_log :: "logged \<Rightarrow> proc \<Rightarrow> proc" where
  "console_log v p = p\<lparr>console := console p @ [v]\<rparr>"

text \<open>
  \<open>listen\<close>: \<open>this.app.listen(this._port, callback)\<close> binds the port and returns
  the server, which accepts connections from then on. The message that the callback
  prints on a later tick is left out.
\<close>

definition listen :: "App \<Rightarrow> proc \<Rightarrow> server \<times> proc" where
  "listen this p = (\<lparr>server_stack = app this, server_port = port this\<rparr>, p\<lparr>accepting := True\<rparr>)"

definition process_on_SIGINT :: "server \<Rightarrow> proc \<Rightarrow> proc" where
  "process_on_SIGINT srv p = p\<lparr>sigint := Some srv\<rparr>"

text \<open>
  The calls of the bootstrap reach into the configuration store, Express and the network,
  and each of them may throw. Which of them throws, and what, is given by the
  environment: \<open>config_fault\<close> for the module-level \<open>nconf.file\<close> and
  \<open>nconf.get\<close>, \<open>controller_fault\<close> for \<open>new mainController()\<close>,
  \<open>app_fault\<close> for \<open>new App(...)\<close> and \<open>listen_fault\<close> for \<open>app.listen()\<close>.
\<close>

record faults =
  config_fault :: "js_error option"
  controller_fault :: "js_error option"
  app_fault :: "js_error option"
  listen_fault :: "js_error option"

definition attempt :: "js_error option \<Rightarrow> 'a \<Rightarrow> js_error + 'a" where
  "attempt fault v = (case fault of Some e \<Rightarrow> Inl e | None \<Rightarrow> Inr v)"

text \<open>The \<open>try\<close> block of \<open>init\<close>: the first statement that throws ends it.\<close>

definition init_try :: "faults \<Rightarrow> revision \<Rightarrow> string \<Rightarrow> config \<Rightarrow> proc \<Rightarrow> js_error + proc" where
  "init_try f rv dirname cfg p =
     (case attempt (controller_fault f) (MainController_new dirname cfg) of
        Inl e \<Rightarrow> Inl e
      | Inr c \<Rightarrow>
          (case attempt (app_fault f) (App_new rv cfg [c]) of
             Inl e \<Rightarrow> Inl e
           | Inr a \<Rightarrow>
               (case attempt (listen_fault f) (listen a p) of
                  Inl e \<Rightarrow> Inl e
                | Inr (srv, p') \<Rightarrow> Inr (process_on_SIGINT srv p'))))"

text \<open>\<open>init\<close>: \<open>try { ... } catch (err) { console.log(err) } finally { }\<close>.\<close>

definition init :: "faults \<Rightarrow> revision \<Rightarrow> string \<Rightarrow> config \<Rightarrow> proc \<Rightarrow> completion" where
  "init f rv dirname cfg p =
     (case init_try f rv dirname cfg p of
        Inl err \<Rightarrow> Returned (console_log (Logged_error err) p)
      | Inr p' \<Rightarrow> Returned p')"

text \<open>
  The module itself: the configuration is loaded by the statements at the top of the
  module, outside \<open>init\<close> and its \<open>try\<close>; then \<open>init()\<close> is called. \<open>cfg\<close> is
  the configuration that a successful load yields.
\<close>

definition app_module :: "faults \<Rightarrow> revision \<Rightarrow> string \<Rightarrow> config \<Rightarrow> proc \<Rightarrow> completion" where
  "app_module f rv dirname cfg p =
     (case config_fault f of
        Some e \<Rightarrow> Uncaught e p
      | None \<Rightarrow> init f rv dirname cfg p)"

section \<open>The running process and SIGINT\<close>

text \<open>
  Node's \<open>server.close(callback)\<close>, as documented: the listener stops accepting
  connections at once and keeps the open ones; the \<open>close\<close> event, and with it the
  callback, comes when the last open connection has ended. \<open>process.exit(code)\<close> ends
  the process, so nothing after it runs.
\<close>

fun run_actions :: "action list \<Rightarrow> proc \<Rightarrow> proc" where
  "run_actions [] p = p"
| "run_actions (Log text # rest) p = run_actions rest (console_log (Logged_text text) p)"
| "run_actions (Exit code # rest) p = p\<lparr>exit_status := Some (Exited code)\<rparr>"

fun run_callbacks :: "action list list \<Rightarrow> proc \<Rightarrow> proc" where
  "run_callbacks [] p = p"
| "run_callbacks (cb # cbs) p =
     (let p' = run_actions cb p in
      if exit_status p' = None then run_callbacks cbs p' else p')"

definition emit_close_if_drained :: "proc \<Rightarrow> proc" where
  "emit_close_if_drained p =
     (if \<not> accepting p \<and> connections p = 0
      then run_callbacks (close_callbacks p) (p\<lparr>close_callbacks := []\<rparr>)
      else p)"

definition server_close :: "action list \<Rightarrow> proc \<Rightarrow> proc" where
  "server_close callback p =
     emit_close_if_drained
       (p\<lparr>accepting := False, close_callbacks := close_callbacks p @ [callback]\<rparr>)"

text \<open>
  The handler that \<open>init\<close> registers:
  \<open>server.close(async () => { console.log('Process terminated'); process.exit(0); })\<close>.
\<close>

definition SIGINT_handler :: "proc \<Rightarrow> proc" where
  "SIGINT_handler p = server_close [Log ''Process terminated'', Exit 0] p"

text \<open>
  What can happen to the process while it runs: the signal arrives, a client connects,
  an open connection ends. A process that has ended takes no further step. Without a
  registered handler SIGINT kills the process; a client that connects to a listener that
  does not accept is refused.
\<close>

datatype event = Signal_SIGINT | Connect | Finish

definition step :: "event \<Rightarrow> proc \<Rightarrow> proc" where
  "step ev p =
     (if exit_status p \<noteq> None then p
      else
        (case ev of
           Signal_SIGINT \<Rightarrow>
             (case sigint p of
                Some srv \<Rightarrow> SIGINT_handler p
              | None \<Rightarrow> p\<lparr>exit_status := Some Killed_by_signal\<rparr>)
         | Connect \<Rightarrow> if accepting p then p\<lparr>connections := Suc (connections p)\<rparr> else p
         | Finish \<Rightarrow>
             if connections p = 0 then p
             else emit_close_if_drained (p\<lparr>connections := connections p - 1\<rparr>)))"

fun run :: "event list \<Rightarrow> proc \<Rightarrow> proc" where
  "run [] p = p"
| "run (ev # evs) p = run evs (step ev p)"

section \<open>Auxiliary notions for stating the properties\<close>

text \<open>
  The layer that \<open>initializeControllers\<close> attaches for a controller, and the layers
  that \<open>initializeMiddlewares\<close> attaches in either revision.
\<close>

definition controller_layer :: "controller \<Rightarrow> layer" where
  "controller_layer c = \<lparr>mount = ''/'', handle = Router (router c)\<rparr>"

definition static_layers :: "revision \<Rightarrow> config \<Rightarrow> layer list" where
  "static_layers rv cfg =
     \<lparr>mount = MAIN_FILE_URL cfg,
      handle = Static (path_join [WEBROOT cfg, STATIC_FILES cfg]) None\<rparr> #
     (case rv of
        Settings_js \<Rightarrow> []
      | Source_ts \<Rightarrow> [\<lparr>mount = ''/'', handle = Static ''build/web_modules'' None\<rparr>])"

text \<open>
  The arguments of the \<open>express.static\<close> calls behind a stack: root and options of
  every static middleware, in the order of attachment.
\<close>

fun static_calls :: "layer list \<Rightarrow> (string \<times> static_options option) list" where
  "static_calls [] = []"
| "static_calls (l # ls) =
     (case handle l of
        Static root opts \<Rightarrow> (root, opts) # static_calls ls
      | Router routes \<Rightarrow> static_calls ls
      | ErrorMiddleware \<Rightarrow> static_calls ls)"

subsection \<open>A concrete deployment\<close>

text \<open>
  A configuration with the main page at \<open>/\<close>, a file system holding the main page and
  a small static directory, a translation for the error middleware, and a second
  controller whose only handler throws.
\<close>

definition example_config :: config where
  "example_config =
     \<lparr>WEBROOT = ''settings'', STATIC_FILES = ''public'', PORT = 7000, MAIN_FILE_URL = ''/'',
      MAIN_FILE_PATH = ''../'', MAIN_FILE_NAME = ''index.html''\<rparr>"

definition example_dirname :: string where
  "example_dirname = ''/srv/settings/controllers''"

definition example_fs :: filesystem where
  "example_fs =
     [''/srv/settings/index.html'' \<mapsto> File ''main page'',
      ''settings/public'' \<mapsto> Directory,
      ''settings/public/css'' \<mapsto> Directory,
      ''settings/public/css/site.css'' \<mapsto> File ''body {}'',
      ''settings/public/.env'' \<mapsto> File ''secret'',
      ''settings/public/.well-known'' \<mapsto> Directory,
      ''settings/public/.well-known/security.txt'' \<mapsto> File ''contact'']"

definition example_translate :: "js_error \<Rightarrow> request \<Rightarrow> response" where
  "example_translate err req = \<lparr>statusCode = 500, body = Content (message err)\<rparr>"

definition example_server :: "revision \<Rightarrow> App" where
  "example_server rv =
     App_new rv example_config [MainController_new example_dirname example_config]"



text \<open>The deployment with the main page at \<open>/app\<close>.\<close>

definition example_app_config :: config where
  "example_app_config = example_config\<lparr>MAIN_FILE_URL := ''/app''\<rparr>"

text \<open>
  A stack as it would be had \<open>opts\<close> been handed to the \<open>express.static\<close> calls.
\<close>

definition static_with :: "static_options \<Rightarrow> layer \<Rightarrow> layer" where
  "static_with opts l =
     (case handle l of
        Static root given \<Rightarrow> l\<lparr>handle := Static root (Some opts)\<rparr>
      | Router routes \<Rightarrow> l
      | ErrorMiddleware \<Rightarrow> l)"

definition example_fault :: js_error where
  "example_fault = Error_new Cls_Error ''Error parsing your configuration file''"

definition no_faults :: faults where
  "no_faults =
     \<lparr>config_fault = None, controller_fault = None, app_fault = None, listen_fault = None\<rparr>"

definition fresh_process :: proc where
  "fresh_process =
     \<lparr>console = [], sigint = None, accepting = False, connections = 0, close_callbacks = [],
      exit_status = None\<rparr>"

text \<open>The process as a completed call left it.\<close>

fun the_process :: "completion \<Rightarrow> proc" where
  "the_process (Returned p) = p"
| "the_process (Uncaught e p) = p"

text \<open>The concrete deployment after \<open>init\<close>, with two clients connected.\<close>

definition example_running :: proc where
  "example_running =
     run [Connect, Connect]
       (the_process (init no_faults Settings_js example_dirname example_config fresh_process))"

text \<open>
  After SIGINT, while connections are open: the listener does not accept, \<open>k\<close>
  connections are open, and the callback of the handler is the first to wait for the
  \<open>close\<close> event.
\<close>

definition draining :: "nat \<Rightarrow> proc \<Rightarrow> bool" where
  "draining k p =
     (\<not> accepting p \<and> sigint p \<noteq> None \<and> exit_status p = None \<and> connections p = k \<and> 0 < k
      \<and> close_callbacks p \<noteq> []
      \<and> hd (close_callbacks p) = [Log ''Process terminated'', Exit 0])"

text \<open>The process has ended with \<open>process.exit(0)\<close>, with no connection open.\<close>

definition exited_cleanly :: "proc \<Rightarrow> bool" where
  "exited_cleanly p =
     (\<not> accepting p \<and> exit_status p = Some (Exited 0) \<and> connections p = 0)"

section \<open>Properties of the exception module\<close>

lemma HttpException_new_fields:
  "cls (HttpException_new c st msg) = c"
  "message (HttpException_new c st msg) = msg"
  "status (HttpException_new c st msg) = None"
  by (simp_all add: HttpException_new_def Error_new_def)

text \<open>
  Claim C9. For every status \<open>s\<close> and message \<open>m\<close> the constructor of
  \<open>HttpException\<close> keeps the message and sets no status property, so the object does
  not depend on \<open>s\<close>; and each subclass, which passes 404, builds the same object it
  would build with any other status \<open>s\<close>, an object without a status property.
\<close>

theorem HttpException_discards_status:
  "message (HttpException s m) = m \<and> status (HttpException s m) = None
   \<and> HttpException s m = HttpException s' m
   \<and> UserWithThatEmailAlreadyExistsException email
       = UserWithThatEmailAlreadyExistsException_with s email
   \<and> WrongCredentialsException = WrongCredentialsException_with s
   \<and> PostNotFoundException ident = PostNotFoundException_with s ident
   \<and> AuthenticationTokenMissingException = AuthenticationTokenMissingException_with s
   \<and> WrongAuthenticationTokenException = WrongAuthenticationTokenException_with s
   \<and> status (UserWithThatEmailAlreadyExistsException email) = None
   \<and> status WrongCredentialsException = None
   \<and> status (PostNotFoundException ident) = None
   \<and> status AuthenticationTokenMissingException = None
   \<and> status WrongAuthenticationTokenException = None"
  by (simp add: HttpException_def UserWithThatEmailAlreadyExistsException_def
      WrongCredentialsException_def PostNotFoundException_def
      AuthenticationTokenMissingException_def WrongAuthenticationTokenException_def
      UserWithThatEmailAlreadyExistsException_with_def WrongCredentialsException_with_def
      PostNotFoundException_with_def AuthenticationTokenMissingException_with_def
      WrongAuthenticationTokenException_with_def HttpException_new_def Error_new_def)

section \<open>The stack that the constructor builds\<close>

lemma app_use_simps:
  "app (app_use m mw this) = app this @ [\<lparr>mount = m, handle = mw\<rparr>]"
  "port (app_use m mw this) = port this"
  "excpetionMiddleware (app_use m mw this) = excpetionMiddleware this"
  "mainFolder (app_use m mw this) = mainFolder this"
  "stataicFolder (app_use m mw this) = stataicFolder this"
  by (simp_all add: app_use_def)

lemma initializeControllers_app:
  "app (initializeControllers cs this) = app this @ map controller_layer cs"
  unfolding initializeControllers_def
  by (induction cs arbitrary: this) (simp_all add: app_use_simps controller_layer_def)

lemma initializeMiddlewares_app:
  "app (initializeMiddlewares_with opts rv cfg (App_fields cfg)) = static_layers rv cfg"
  by (cases rv) (simp_all add: initializeMiddlewares_with_def App_fields_def express_def
      app_use_simps static_layers_def Let_def)

lemma statics_eq: "app (initializeMiddlewares rv cfg (App_fields cfg)) = static_layers rv cfg"
  by (simp add: initializeMiddlewares_def initializeMiddlewares_app)

lemma App_new_with_app:
  "app (App_new_with opts rv cfg cs) =
     static_layers rv cfg @ map controller_layer cs
       @ [\<lparr>mount = ''/'', handle = ErrorMiddleware\<rparr>]"
  by (simp add: App_new_with_def Let_def initializeErrorMiddleware_def app_use_simps
      initializeControllers_app initializeAuthenticators_def initializeDatabase_def
      initializeMiddlewares_app)

lemma App_new_app:
  "app (App_new rv cfg cs) =
     static_layers rv cfg @ map controller_layer cs
       @ [\<lparr>mount = ''/'', handle = ErrorMiddleware\<rparr>]"
  by (simp add: App_new_def App_new_with_app)

lemma static_calls_append: "static_calls (xs @ ys) = static_calls xs @ static_calls ys"
  by (induction xs) (simp_all split: middleware.splits)

lemma static_calls_controllers: "static_calls (map controller_layer cs) = []"
  by (induction cs) (simp_all add: controller_layer_def)

lemma no_error_handler_in_controllers:
  "filter (\<lambda>l. handles_error (handle l)) (map controller_layer cs) = []"
  by (induction cs) (simp_all add: controller_layer_def)

lemma no_error_handler_in_statics:
  "filter (\<lambda>l. handles_error (handle l)) (static_layers rv cfg) = []"
  by (cases rv) (simp_all add: static_layers_def)

text \<open>
  Claim C5. For every list of controllers the constructor composes the application in
  the order of its calls: \<open>initializeDatabase\<close> changes nothing (and neither does the
  empty \<open>initializeAuthenticators\<close> that the source calls before the controllers), so
  the stack holds first the static middleware rooted at the configured directory
  (followed, in the TypeScript revision, by the one for \<open>build/web_modules\<close>), then one
  router layer per controller in the order of the list, and last the error middleware.
\<close>

theorem App_constructor_order:
  "initializeDatabase this = this
   \<and> initializeAuthenticators this = this
   \<and> app (App_new rv cfg controllers) =
       (\<lparr>mount = MAIN_FILE_URL cfg,
         handle = Static (path_join [WEBROOT cfg, STATIC_FILES cfg]) None\<rparr> #
        (case rv of
           Settings_js \<Rightarrow> []
         | Source_ts \<Rightarrow> [\<lparr>mount = ''/'', handle = Static ''build/web_modules'' None\<rparr>]))
       @ map (\<lambda>c. \<lparr>mount = ''/'', handle = Router (router c)\<rparr>) controllers
       @ [\<lparr>mount = ''/'', handle = ErrorMiddleware\<rparr>]"
proof -
  have "map controller_layer controllers
          = map (\<lambda>c. \<lparr>mount = ''/'', handle = Router (router c)\<rparr>) controllers"
    by (simp add: controller_layer_def)
  then show ?thesis
    by (simp add: initializeDatabase_def initializeAuthenticators_def App_new_app
        static_layers_def)
qed

text \<open>
  Claim C6. After construction, for every list of controllers, the error middleware is
  the last layer of the stack, no layer before it is an error handler, and \<open>listen\<close>
  serves the stack as the constructor left it: nothing is attached after the error
  middleware.
\<close>

theorem error_middleware_attached_last:
  "last (app (App_new rv cfg controllers)) = \<lparr>mount = ''/'', handle = ErrorMiddleware\<rparr>
   \<and> filter (\<lambda>l. handles_error (handle l)) (butlast (app (App_new rv cfg controllers))) = []
   \<and> server_stack (fst (listen (App_new rv cfg controllers) p))
       = app (App_new rv cfg controllers)"
proof -
  have "butlast (app (App_new rv cfg controllers))
          = static_layers rv cfg @ map controller_layer controllers"
    by (simp add: App_new_app butlast_append)
  then show ?thesis
    by (simp add: App_new_app listen_def no_error_handler_in_controllers
        no_error_handler_in_statics)
qed

text \<open>
  Claim C10. The options object of \<open>initializeMiddlewares\<close> reaches no
  \<open>express.static\<close> call: whatever its value, the method and the constructor build the
  same application, every static middleware of the stack was created from its root alone
  (its options are absent), and every request is answered the same way.
\<close>

theorem static_options_never_passed:
  "initializeMiddlewares_with opts rv cfg this = initializeMiddlewares rv cfg this
   \<and> App_new_with opts rv cfg controllers = App_new rv cfg controllers
   \<and> static_calls (app (App_new rv cfg controllers)) =
       (path_join [WEBROOT cfg, STATIC_FILES cfg], None) #
       (case rv of Settings_js \<Rightarrow> [] | Source_ts \<Rightarrow> [(''build/web_modules'', None)])
   \<and> serve tr fs (App_new_with opts rv cfg controllers) req
       = serve tr fs (App_new rv cfg controllers) req"
proof -
  have a: "initializeMiddlewares_with opts rv cfg this = initializeMiddlewares rv cfg this"
    by (simp add: initializeMiddlewares_def initializeMiddlewares_with_def)
  have b: "App_new_with opts rv cfg controllers = App_new rv cfg controllers"
    by (simp add: App_new_def App_new_with_def initializeMiddlewares_with_def)
  have c: "static_calls (static_layers rv cfg) =
       (path_join [WEBROOT cfg, STATIC_FILES cfg], None) #
       (case rv of Settings_js \<Rightarrow> [] | Source_ts \<Rightarrow> [(''build/web_modules'', None)])"
    by (cases rv) (simp_all add: static_layers_def)
  show ?thesis
    by (simp add: a b c App_new_app static_calls_append static_calls_controllers)
qed

section \<open>Requests through the stack\<close>

lemma router_handle_append:
  "router_handle tr fs (xs @ ys) err req =
     (case router_handle tr fs xs err req of
        Answered r \<Rightarrow> Answered r
      | Unanswered err' \<Rightarrow> router_handle tr fs ys err' req
      | Abandoned e \<Rightarrow> Abandoned e)"
  by (induction xs arbitrary: err)
     (auto simp: errorMiddleware_def split: option.splits outcome.splits)

lemma mount_root: "mount_match ''/'' p = Some p"
  by (simp add: mount_match_def)


lemma router_handle_error_layer_idle:
  "router_handle tr fs [\<lparr>mount = ''/'', handle = ErrorMiddleware\<rparr>] None req = Unanswered None"
  by (simp add: mount_root)




lemma router_handle_controller_next:
  assumes "run_router fs (router c) req = Next"
  shows "router_handle tr fs (controller_layer c # ls) None req
           = router_handle tr fs ls None req"
  using assms by (simp add: controller_layer_def mount_root run_middleware_def)

lemma serve_App_new:
  "serve tr fs (App_new rv cfg cs) req =
     app_handle tr fs (static_layers rv cfg @ map controller_layer cs
        @ [\<lparr>mount = ''/'', handle = ErrorMiddleware\<rparr>]) req"
  by (simp add: serve_def App_new_app)


subsection \<open>Exceptions thrown by route handlers\<close>




subsection \<open>The main route\<close>

lemma MainController_router:
  "router (MainController_new dirname cfg) =
     [Route GET (MAIN_FILE_URL cfg) (mainPageRoute (MainController_filePath dirname cfg))]"
  by (simp add: MainController_new_def initializeRoutes_def)

lemma main_router_no_match:
  assumes "\<not> (req_method req = GET \<and> route_match (MAIN_FILE_URL cfg) (req_path req))"
  shows "run_router fs (router (MainController_new dirname cfg)) req = Next"
  using assms by (auto simp: MainController_router)

text \<open>
  Claim C1. The server does not answer every GET request to the main route with the
  configured file. \<open>initializeMiddlewares\<close> builds an options object with
  \<open>index: false\<close> and \<open>redirect: false\<close> and then calls \<open>express.static\<close> without
  it, in front of the controller. With the main route at \<open>/\<close> and an \<open>index.html\<close>
  in the static directory, \<open>GET /\<close> is answered 200 by the static middleware with that
  file, although the configured file exists; with the main route at \<open>/app\<close>,
  \<open>GET /app\<close> is answered by its redirect, 301. Had the options been passed, both
  requests would have reached the controller and been answered with the configured file.
\<close>

theorem main_route_answered_by_static_middleware:
  "route_match (MAIN_FILE_URL example_config) ''/''
   \<and> (example_fs(''settings/public/index.html'' \<mapsto> File ''static index''))
        (path_join [example_dirname, MAIN_FILE_PATH example_config,
           MAIN_FILE_NAME example_config])
       = Some (File ''main page'')
   \<and> serve example_translate
        (example_fs(''settings/public/index.html'' \<mapsto> File ''static index''))
        (App_new Settings_js example_config [MainController_new example_dirname example_config])
        \<lparr>req_method = GET, req_path = ''/''\<rparr>
       = Reply \<lparr>statusCode = 200, body = Content ''static index''\<rparr>
   \<and> app_handle example_translate
        (example_fs(''settings/public/index.html'' \<mapsto> File ''static index''))
        (map (static_with options)
           (app (App_new Settings_js example_config
              [MainController_new example_dirname example_config])))
        \<lparr>req_method = GET, req_path = ''/''\<rparr>
       = Reply \<lparr>statusCode = 200, body = Content ''main page''\<rparr>
   \<and> route_match (MAIN_FILE_URL example_app_config) ''/app''
   \<and> serve example_translate example_fs
        (App_new Settings_js example_app_config
           [MainController_new example_dirname example_app_config])
        \<lparr>req_method = GET, req_path = ''/app''\<rparr>
       = Reply \<lparr>statusCode = 301, body = Generated\<rparr>
   \<and> app_handle example_translate example_fs
        (map (static_with options)
           (app (App_new Settings_js example_app_config
              [MainController_new example_dirname example_app_config])))
        \<lparr>req_method = GET, req_path = ''/app''\<rparr>
       = Reply \<lparr>statusCode = 200, body = Content ''main page''\<rparr>"
  by code_simp

subsection \<open>The static directory\<close>

lemma express_static_file:
  assumes "\<not> ends_with_slash url" and "decodeURIComponent url = Some decoded"
    and "CHR 0x00 \<notin> set decoded"
    and "\<not> leaves_root (relative_path decoded)"
    and "\<not> hides None (split_on CHR ''/'' (relative_path decoded))"
    and "stat fs (static_file root decoded) = Some (File c)"
  shows "express_static fs root None GET original url
           = Respond \<lparr>statusCode = 200, body = Content c\<rparr>"
proof -
  from assms(1) have "url \<noteq> ''/''" by (auto simp: ends_with_slash_def)
  with assms show ?thesis
    by (simp add: express_static_def static_defaults_def Let_def)
qed

lemma express_static_missing:
  assumes "\<not> ends_with_slash url" and "decodeURIComponent url = Some decoded"
    and "stat fs (static_file root decoded) = None"
  shows "express_static fs root None GET original url = Next"
proof -
  from assms(1) have "url \<noteq> ''/''" by (auto simp: ends_with_slash_def)
  with assms show ?thesis
    by (simp add: express_static_def static_defaults_def Let_def)
qed

text \<open>
  Claim C3, as the code has it. Take a GET request whose path lies under the mount path
  \<open>MAIN_FILE_URL\<close>, a literal path, with \<open>url\<close> the rest of the path, not ending in
  a slash, and
  \<open>decoded\<close> what \<open>url\<close> decodes to. If \<open>decoded\<close> holds no NUL and no segment
  \<open>..\<close>, its last segment does not start with a dot, and it names a file of the static
  directory \<open>path.join(WEBROOT, STATIC_FILES)\<close>, the server answers 200 with the content
  of that file, whatever controllers are attached. If the directory holds nothing at
  \<open>decoded\<close>, its middleware passes the request on; and once the static middleware has
  passed a request that is not the main route, the server with the main controller
  answers 404.
\<close>

theorem static_directory_requests:
  assumes "req_method req = GET"
    and "mount_match (MAIN_FILE_URL cfg) (req_path req) = Some url"
    and "\<not> ends_with_slash url"
    and "decodeURIComponent url = Some decoded"
    and "literal_path (MAIN_FILE_URL cfg)"
  shows "(CHR 0x00 \<notin> set decoded
          \<and> \<not> leaves_root (relative_path decoded)
          \<and> \<not> hides None (split_on CHR ''/'' (relative_path decoded))
          \<and> stat fs (static_file (path_join [WEBROOT cfg, STATIC_FILES cfg]) decoded)
              = Some (File c)
          \<longrightarrow> serve tr fs (App_new rv cfg controllers) req
                = Reply \<lparr>statusCode = 200, body = Content c\<rparr>)
       \<and> (stat fs (static_file (path_join [WEBROOT cfg, STATIC_FILES cfg]) decoded) = None
          \<longrightarrow> express_static fs (path_join [WEBROOT cfg, STATIC_FILES cfg]) None GET
                (req_path req) url = Next)
       \<and> (router_handle tr fs (app (initializeMiddlewares rv cfg (App_fields cfg))) None req
              = Unanswered None
          \<and> \<not> route_match (MAIN_FILE_URL cfg) (req_path req)
          \<longrightarrow> serve tr fs (App_new rv cfg [MainController_new dirname cfg]) req
                = Reply \<lparr>statusCode = 404, body = Generated\<rparr>)"
proof (intro conjI impI)
  let ?root = "path_join [WEBROOT cfg, STATIC_FILES cfg]"
  assume h: "CHR 0x00 \<notin> set decoded
          \<and> \<not> leaves_root (relative_path decoded)
          \<and> \<not> hides None (split_on CHR ''/'' (relative_path decoded))
          \<and> stat fs (static_file ?root decoded) = Some (File c)"
  have "express_static fs ?root None GET (req_path req) url
          = Respond \<lparr>statusCode = 200, body = Content c\<rparr>"
    using assms(3,4) h by (simp add: express_static_file)
  then have "router_handle tr fs (static_layers rv cfg @ map controller_layer controllers
        @ [\<lparr>mount = ''/'', handle = ErrorMiddleware\<rparr>]) None req
        = Answered \<lparr>statusCode = 200, body = Content c\<rparr>"
    using assms(1,2) by (simp add: static_layers_def run_middleware_def)
  then show "serve tr fs (App_new rv cfg controllers) req
               = Reply \<lparr>statusCode = 200, body = Content c\<rparr>"
    by (simp add: serve_App_new app_handle_def)
next
  assume "stat fs (static_file (path_join [WEBROOT cfg, STATIC_FILES cfg]) decoded) = None"
  with assms(3,4)
  show "express_static fs (path_join [WEBROOT cfg, STATIC_FILES cfg]) None GET
          (req_path req) url = Next"
    by (rule express_static_missing)
next
  let ?c = "MainController_new dirname cfg"
  let ?err = "[\<lparr>mount = ''/'', handle = ErrorMiddleware\<rparr>]"
  assume h: "router_handle tr fs (app (initializeMiddlewares rv cfg (App_fields cfg))) None req
              = Unanswered None
          \<and> \<not> route_match (MAIN_FILE_URL cfg) (req_path req)"
  then have s: "router_handle tr fs (static_layers rv cfg) None req = Unanswered None"
    by (simp add: statics_eq)
  from h have nm: "run_router fs (router ?c) req = Next"
    by (simp add: main_router_no_match)
  have "router_handle tr fs (static_layers rv cfg @ (controller_layer ?c # ?err)) None req
          = router_handle tr fs (controller_layer ?c # ?err) None req"
    by (simp only: router_handle_append [of tr fs "static_layers rv cfg"] s walk.case)
  also have "\<dots> = router_handle tr fs ?err None req"
    using nm by (rule router_handle_controller_next)
  also have "\<dots> = Unanswered None" by (rule router_handle_error_layer_idle)
  finally show "serve tr fs (App_new rv cfg [?c]) req
                  = Reply \<lparr>statusCode = 404, body = Generated\<rparr>"
    by (simp add: serve_App_new app_handle_def finalhandler_def)
qed

text \<open>
  In the concrete deployment \<open>GET /css/site.css\<close> is answered with the style sheet, as
  is the same path with an escaped dot; \<open>GET /.well-known/security.txt\<close>, a file below
  a dot directory, is answered with the file; and \<open>GET /missing.txt\<close>, which the static
  middleware passes on, is answered 404.
\<close>

theorem static_directory_witness:
  "serve example_translate example_fs
        (App_new Settings_js example_config [MainController_new example_dirname example_config])
        \<lparr>req_method = GET, req_path = ''/css/site.css''\<rparr>
     = Reply \<lparr>statusCode = 200, body = Content ''body {}''\<rparr>
   \<and> serve example_translate example_fs
        (App_new Settings_js example_config [MainController_new example_dirname example_config])
        \<lparr>req_method = GET, req_path = ''/css/site%2Ecss''\<rparr>
     = Reply \<lparr>statusCode = 200, body = Content ''body {}''\<rparr>
   \<and> serve example_translate example_fs
        (App_new Settings_js example_config [MainController_new example_dirname example_config])
        \<lparr>req_method = GET, req_path = ''/.well-known/security.txt''\<rparr>
     = Reply \<lparr>statusCode = 200, body = Content ''contact''\<rparr>
   \<and> express_static example_fs (path_join [WEBROOT example_config, STATIC_FILES example_config])
        None GET ''/missing.txt'' ''/missing.txt'' = Next
   \<and> serve example_translate example_fs
        (App_new Settings_js example_config [MainController_new example_dirname example_config])
        \<lparr>req_method = GET, req_path = ''/missing.txt''\<rparr>
     = Reply \<lparr>statusCode = 404, body = Generated\<rparr>"
proof -
  let ?r1 = "\<lparr>req_method = GET, req_path = ''/css/site.css''\<rparr>"
  let ?r2 = "\<lparr>req_method = GET, req_path = ''/missing.txt''\<rparr>"
  let ?r3 = "\<lparr>req_method = GET, req_path = ''/css/site%2Ecss''\<rparr>"
  let ?r4 = "\<lparr>req_method = GET, req_path = ''/.well-known/security.txt''\<rparr>"
  let ?root = "path_join [WEBROOT example_config, STATIC_FILES example_config]"
  let ?server = "App_new Settings_js example_config
                   [MainController_new example_dirname example_config]"
  have m1: "req_method ?r1 = GET" and m2: "req_method ?r2 = GET"
    and m3: "req_method ?r3 = GET" and m4: "req_method ?r4 = GET"
    by simp_all
  have u1: "mount_match (MAIN_FILE_URL example_config) (req_path ?r1) = Some ''/css/site.css''"
    by code_simp
  have u2: "mount_match (MAIN_FILE_URL example_config) (req_path ?r2) = Some ''/missing.txt''"
    by code_simp
  have u3: "mount_match (MAIN_FILE_URL example_config) (req_path ?r3) = Some ''/css/site%2Ecss''"
    by code_simp
  have u4: "mount_match (MAIN_FILE_URL example_config) (req_path ?r4)
              = Some ''/.well-known/security.txt''"
    by code_simp
  have s1: "\<not> ends_with_slash ''/css/site.css''" and s2: "\<not> ends_with_slash ''/missing.txt''"
    and s3: "\<not> ends_with_slash ''/css/site%2Ecss''"
    and s4: "\<not> ends_with_slash ''/.well-known/security.txt''"
    by code_simp+
  have d1: "decodeURIComponent ''/css/site.css'' = Some ''/css/site.css''"
    and d2: "decodeURIComponent ''/missing.txt'' = Some ''/missing.txt''"
    and d3: "decodeURIComponent ''/css/site%2Ecss'' = Some ''/css/site.css''"
    and d4: "decodeURIComponent ''/.well-known/security.txt'' = Some ''/.well-known/security.txt''"
    by code_simp+
  have f1: "CHR 0x00 \<notin> set ''/css/site.css''
      \<and> \<not> leaves_root (relative_path ''/css/site.css'')
      \<and> \<not> hides None (split_on CHR ''/'' (relative_path ''/css/site.css''))
      \<and> stat example_fs (static_file ?root ''/css/site.css'') = Some (File ''body {}'')"
    by code_simp
  have f4: "CHR 0x00 \<notin> set ''/.well-known/security.txt''
      \<and> \<not> leaves_root (relative_path ''/.well-known/security.txt'')
      \<and> \<not> hides None (split_on CHR ''/'' (relative_path ''/.well-known/security.txt''))
      \<and> stat example_fs (static_file ?root ''/.well-known/security.txt'')
          = Some (File ''contact'')"
    by code_simp
  have f2: "stat example_fs (static_file ?root ''/missing.txt'') = None"
    by code_simp
  have lit: "literal_path (MAIN_FILE_URL example_config)" by code_simp
  have f3: "router_handle example_translate example_fs
        (app (initializeMiddlewares Settings_js example_config (App_fields example_config)))
        None ?r2 = Unanswered None
      \<and> \<not> route_match (MAIN_FILE_URL example_config) (req_path ?r2)"
    by code_simp
  note t1 = static_directory_requests [OF m1 u1 s1 d1 lit, where fs = example_fs
      and c = "''body {}''" and tr = example_translate and rv = Settings_js
      and controllers = "[MainController_new example_dirname example_config]"
      and dirname = example_dirname]
  note t3 = static_directory_requests [OF m3 u3 s3 d3 lit, where fs = example_fs
      and c = "''body {}''" and tr = example_translate and rv = Settings_js
      and controllers = "[MainController_new example_dirname example_config]"
      and dirname = example_dirname]
  note t4 = static_directory_requests [OF m4 u4 s4 d4 lit, where fs = example_fs
      and c = "''contact''" and tr = example_translate and rv = Settings_js
      and controllers = "[MainController_new example_dirname example_config]"
      and dirname = example_dirname]
  note t2 = static_directory_requests [OF m2 u2 s2 d2 lit, where fs = example_fs
      and tr = example_translate and rv = Settings_js and dirname = example_dirname]
  from t1 f1 have g1: "serve example_translate example_fs ?server ?r1
     = Reply \<lparr>statusCode = 200, body = Content ''body {}''\<rparr>"
    by blast
  from t3 f1 have g3: "serve example_translate example_fs ?server ?r3
     = Reply \<lparr>statusCode = 200, body = Content ''body {}''\<rparr>"
    by blast
  from t4 f4 have g4: "serve example_translate example_fs ?server ?r4
     = Reply \<lparr>statusCode = 200, body = Content ''contact''\<rparr>"
    by blast
  from t2 f2 have g2: "express_static example_fs ?root None GET ''/missing.txt'' ''/missing.txt''
        = Next"
    by simp
  from t2 f3 have g5: "serve example_translate example_fs ?server ?r2
     = Reply \<lparr>statusCode = 404, body = Generated\<rparr>"
    by blast
  from g1 g2 g3 g4 g5 show ?thesis by simp
qed

text \<open>
  The claim as the spec states it fails three ways in the concrete deployment: a POST
  to an existing file of the static directory is answered 404, a GET of an existing
  file whose name starts with a dot is answered 404, and a GET of \<open>/\<close>, for which the
  static directory holds no file, is answered 200 with the main page.
\<close>

theorem static_directory_counterexample:
  "example_fs (path_join [path_join [WEBROOT example_config, STATIC_FILES example_config],
       ''css/site.css'']) = Some (File ''body {}'')
   \<and> serve example_translate example_fs (example_server Settings_js)
        \<lparr>req_method = POST, req_path = ''/css/site.css''\<rparr>
     = Reply \<lparr>statusCode = 404, body = Generated\<rparr>
   \<and> example_fs (path_join [path_join [WEBROOT example_config, STATIC_FILES example_config],
       ''.env'']) = Some (File ''secret'')
   \<and> serve example_translate example_fs (example_server Settings_js)
        \<lparr>req_method = GET, req_path = ''/.env''\<rparr>
     = Reply \<lparr>statusCode = 404, body = Generated\<rparr>
   \<and> example_fs (path_join [path_join [WEBROOT example_config, STATIC_FILES example_config],
       ''index.html'']) = None
   \<and> serve example_translate example_fs (example_server Settings_js)
        \<lparr>req_method = GET, req_path = ''/''\<rparr>
     = Reply \<lparr>statusCode = 200, body = Content ''main page''\<rparr>"
  by code_simp

section \<open>Errors during bootstrap\<close>

text \<open>
  Claim C8, as the code has it. Whatever statement of the \<open>try\<close> block of \<open>init\<close>
  throws (the construction of the controller, the construction of the application, or
  \<open>listen\<close>), \<open>init\<close> logs the error and returns normally, without registering the
  SIGINT handler; when nothing throws, the server listens and the handler is registered
  for it. The module calls \<open>init\<close> only after the configuration has been loaded.
\<close>

theorem init_logs_and_swallows:
  "(controller_fault f = Some e
      \<longrightarrow> init f rv dirname cfg p = Returned (console_log (Logged_error e) p))
   \<and> (controller_fault f = None \<and> app_fault f = Some e
        \<longrightarrow> init f rv dirname cfg p = Returned (console_log (Logged_error e) p))
   \<and> (controller_fault f = None \<and> app_fault f = None \<and> listen_fault f = Some e
        \<longrightarrow> init f rv dirname cfg p = Returned (console_log (Logged_error e) p))
   \<and> (controller_fault f = None \<and> app_fault f = None \<and> listen_fault f = None
        \<longrightarrow> init f rv dirname cfg p
              = Returned (process_on_SIGINT
                  (fst (listen (App_new rv cfg [MainController_new dirname cfg]) p))
                  (snd (listen (App_new rv cfg [MainController_new dirname cfg]) p))))
   \<and> (config_fault f = None \<longrightarrow> app_module f rv dirname cfg p = init f rv dirname cfg p)"
  by (simp add: init_def init_try_def attempt_def app_module_def split: prod.splits)

theorem init_logs_and_swallows_witness:
  "init (no_faults\<lparr>controller_fault := Some example_fault\<rparr>) Settings_js example_dirname
      example_config fresh_process
     = Returned (fresh_process\<lparr>console := [Logged_error example_fault]\<rparr>)
   \<and> init (no_faults\<lparr>app_fault := Some example_fault\<rparr>) Settings_js example_dirname
      example_config fresh_process
     = Returned (fresh_process\<lparr>console := [Logged_error example_fault]\<rparr>)
   \<and> init (no_faults\<lparr>listen_fault := Some example_fault\<rparr>) Settings_js example_dirname
      example_config fresh_process
     = Returned (fresh_process\<lparr>console := [Logged_error example_fault]\<rparr>)
   \<and> init no_faults Settings_js example_dirname example_config fresh_process
     = Returned (fresh_process
         \<lparr>sigint := Some \<lparr>server_stack = app (example_server Settings_js), server_port = 7000\<rparr>,
          accepting := True\<rparr>)
   \<and> app_module no_faults Settings_js example_dirname example_config fresh_process
     = init no_faults Settings_js example_dirname example_config fresh_process"
  using
    init_logs_and_swallows [where f = "no_faults\<lparr>controller_fault := Some example_fault\<rparr>"
      and e = example_fault and rv = Settings_js and dirname = example_dirname
      and cfg = example_config and p = fresh_process]
    init_logs_and_swallows [where f = "no_faults\<lparr>app_fault := Some example_fault\<rparr>"
      and e = example_fault and rv = Settings_js and dirname = example_dirname
      and cfg = example_config and p = fresh_process]
    init_logs_and_swallows [where f = "no_faults\<lparr>listen_fault := Some example_fault\<rparr>"
      and e = example_fault and rv = Settings_js and dirname = example_dirname
      and cfg = example_config and p = fresh_process]
    init_logs_and_swallows [where f = no_faults
      and e = example_fault and rv = Settings_js and dirname = example_dirname
      and cfg = example_config and p = fresh_process]
  by (simp add: no_faults_def fresh_process_def console_log_def process_on_SIGINT_def
      listen_def example_server_def App_new_def App_new_with_def App_fields_def Let_def
      initializeErrorMiddleware_def initializeControllers_def initializeAuthenticators_def
      initializeMiddlewares_with_def initializeDatabase_def app_use_def example_config_def)

text \<open>
  The claim as the spec states it fails for the configuration load: an error thrown by
  the statements at the top of the module is outside the \<open>try\<close> of \<open>init\<close>. It
  leaves the module uncaught, with nothing logged.
\<close>

theorem config_load_error_uncaught:
  "app_module (no_faults\<lparr>config_fault := Some example_fault\<rparr>) Settings_js example_dirname
      example_config fresh_process
     = Uncaught example_fault fresh_process"
  by (simp add: app_module_def no_faults_def)

section \<open>SIGINT\<close>

lemma SIGINT_handler_running:
  assumes "exit_status p = None" "sigint p \<noteq> None" "close_callbacks p = []"
  shows "if connections p = 0 then exited_cleanly (SIGINT_handler p)
         else draining (connections p) (SIGINT_handler p)"
  using assms
  by (simp add: SIGINT_handler_def server_close_def emit_close_if_drained_def Let_def
      console_log_def exited_cleanly_def draining_def)

lemma step_exited: "exited_cleanly p \<Longrightarrow> step ev p = p"
  by (simp add: step_def exited_cleanly_def)

lemma run_exited: "exited_cleanly p \<Longrightarrow> run evs p = p"
  by (induction evs) (simp_all add: step_exited)

lemma step_draining_Finish:
  assumes "draining k p"
  shows "if k = 1 then exited_cleanly (step Finish p) else draining (k - 1) (step Finish p)"
proof -
  from assms obtain cbs
    where cbs: "close_callbacks p = [Log ''Process terminated'', Exit 0] # cbs"
    by (cases "close_callbacks p") (auto simp: draining_def)
  show ?thesis
    using assms cbs
    by (auto simp: step_def draining_def exited_cleanly_def emit_close_if_drained_def
        Let_def console_log_def)
qed

lemma step_draining_Connect: "draining k p \<Longrightarrow> step Connect p = p"
  by (simp add: step_def draining_def)

lemma step_draining_SIGINT: "draining k p \<Longrightarrow> draining k (step Signal_SIGINT p)"
  by (cases "close_callbacks p")
     (auto simp: step_def draining_def SIGINT_handler_def server_close_def
        emit_close_if_drained_def)

lemma run_draining:
  assumes "draining k p"
  shows "if k \<le> count_list evs Finish then exited_cleanly (run evs p)
         else draining (k - count_list evs Finish) (run evs p)"
  using assms
proof (induction evs arbitrary: k p)
  case Nil
  then show ?case by (simp add: draining_def)
next
  case (Cons ev evs)
  show ?case
  proof (cases ev)
    case Signal_SIGINT
    from Cons.IH [OF step_draining_SIGINT [OF Cons.prems]] show ?thesis
      by (simp add: Signal_SIGINT)
  next
    case Connect
    from Cons.IH [OF Cons.prems] show ?thesis
      by (simp add: Connect step_draining_Connect [OF Cons.prems])
  next
    case Finish
    from Cons.prems have k: "0 < k" by (simp add: draining_def)
    show ?thesis
    proof (cases "k = 1")
      case True
      with step_draining_Finish [OF Cons.prems] have "exited_cleanly (step Finish p)" by simp
      then show ?thesis using True by (simp add: Finish run_exited)
    next
      case False
      with step_draining_Finish [OF Cons.prems] have d: "draining (k - 1) (step Finish p)"
        by simp
      from Cons.IH [OF d] k False show ?thesis
        by (auto simp: Finish split: if_splits)
    qed
  qed
qed

text \<open>
  A process that serves: it has not ended, the handler of \<open>init\<close> is registered, the
  listener accepts, and no callback waits for a \<open>close\<close> event.
\<close>

lemma init_serving:
  assumes "controller_fault f = None" "app_fault f = None" "listen_fault f = None"
  shows "sigint (the_process (init f rv dirname cfg p0)) \<noteq> None
       \<and> accepting (the_process (init f rv dirname cfg p0))
       \<and> exit_status (the_process (init f rv dirname cfg p0)) = exit_status p0
       \<and> close_callbacks (the_process (init f rv dirname cfg p0)) = close_callbacks p0"
  using assms
  by (simp add: init_def init_try_def attempt_def listen_def process_on_SIGINT_def)

lemma step_serving:
  assumes "ev \<noteq> Signal_SIGINT" "exit_status p = None" "close_callbacks p = []"
  shows "sigint (step ev p) = sigint p \<and> accepting (step ev p) = accepting p
       \<and> exit_status (step ev p) = None \<and> close_callbacks (step ev p) = []"
  using assms by (cases ev) (simp_all add: step_def emit_close_if_drained_def)

lemma run_serving:
  assumes "count_list evs Signal_SIGINT = 0" "exit_status p = None" "close_callbacks p = []"
  shows "sigint (run evs p) = sigint p \<and> accepting (run evs p) = accepting p
       \<and> exit_status (run evs p) = None \<and> close_callbacks (run evs p) = []"
  using assms
proof (induction evs arbitrary: p)
  case Nil
  then show ?case by simp
next
  case (Cons ev evs)
  from Cons.prems(1) have ev: "ev \<noteq> Signal_SIGINT" and evs: "count_list evs Signal_SIGINT = 0"
    by (auto split: if_splits)
  from step_serving [OF ev Cons.prems(2,3)] Cons.IH [OF evs, of "step ev p"]
  show ?case by simp
qed

lemma run_append: "run (xs @ ys) p = run ys (run xs p)"
  by (induction xs arbitrary: p) simp_all

lemma SIGINT_when_serving:
  assumes "exit_status p = None" and "sigint p \<noteq> None" and "close_callbacks p = []"
  shows "\<not> accepting (run evs (step Signal_SIGINT p))
       \<and> connections (run evs (step Signal_SIGINT p)) = connections p - count_list evs Finish
       \<and> exit_status (run evs (step Signal_SIGINT p))
           = (if connections p \<le> count_list evs Finish then Some (Exited 0) else None)"
proof -
  let ?q = "step Signal_SIGINT p"
  have q: "?q = SIGINT_handler p" using assms by (auto simp: step_def)
  show ?thesis
  proof (cases "connections p = 0")
    case True
    with SIGINT_handler_running [of p] assms have "exited_cleanly ?q" by (simp add: q)
    then show ?thesis using True by (simp add: run_exited exited_cleanly_def)
  next
    case False
    with SIGINT_handler_running [of p] assms have "draining (connections p) ?q"
      by (simp add: q)
    from run_draining [OF this, of evs] show ?thesis
      by (auto simp: draining_def exited_cleanly_def split: if_splits)
  qed
qed

text \<open>
  Claim C2. Let \<open>init\<close> complete without an error in a process that has not ended and
  has no callback waiting, let the server then see any traffic \<open>traffic\<close> of clients
  that connect and connections that end, and let SIGINT arrive, followed by any events
  \<open>evs\<close>. Up to the signal the listener accepts connections. From the signal on it
  accepts none: the open connections are those that were open when the signal came, less
  the ones that have ended since. The process ends exactly when the last of them has
  ended, and it ends with exit code 0; until then it keeps running.
\<close>

theorem SIGINT_drains_then_exits_0:
  assumes "controller_fault f = None" and "app_fault f = None" and "listen_fault f = None"
    and "exit_status p0 = None" and "close_callbacks p0 = []"
    and "count_list traffic Signal_SIGINT = 0"
  shows "accepting (run traffic (the_process (init f rv dirname cfg p0)))
       \<and> \<not> accepting (run (traffic @ Signal_SIGINT # evs) (the_process (init f rv dirname cfg p0)))
       \<and> connections (run (traffic @ Signal_SIGINT # evs) (the_process (init f rv dirname cfg p0)))
           = connections (run traffic (the_process (init f rv dirname cfg p0)))
               - count_list evs Finish
       \<and> exit_status (run (traffic @ Signal_SIGINT # evs) (the_process (init f rv dirname cfg p0)))
           = (if connections (run traffic (the_process (init f rv dirname cfg p0)))
                   \<le> count_list evs Finish
              then Some (Exited 0) else None)"
proof -
  let ?p1 = "the_process (init f rv dirname cfg p0)"
  let ?p = "run traffic ?p1"
  from init_serving [OF assms(1,2,3), of rv dirname cfg p0] assms(4,5)
  have p1: "sigint ?p1 \<noteq> None" "accepting ?p1" "exit_status ?p1 = None"
    "close_callbacks ?p1 = []"
    by simp_all
  from run_serving [OF assms(6) p1(3,4)] p1(1,2)
  have p: "sigint ?p \<noteq> None" "accepting ?p" "exit_status ?p = None" "close_callbacks ?p = []"
    by simp_all
  have split: "run (traffic @ Signal_SIGINT # evs) ?p1 = run evs (step Signal_SIGINT ?p)"
    by (simp add: run_append)
  from SIGINT_when_serving [OF p(3,1,4), of evs] p(2) show ?thesis
    by (simp add: split)
qed

text \<open>
  The concrete deployment: two clients connect after \<open>init\<close>. After SIGINT a new
  client is refused, and the process exits with code 0 when the second connection ends,
  not before.
\<close>

theorem SIGINT_witness:
  "accepting example_running
   \<and> connections example_running = 2
   \<and> exit_status (run ([Connect, Connect] @ Signal_SIGINT # [Connect, Finish])
        (the_process (init no_faults Settings_js example_dirname example_config fresh_process)))
       = None
   \<and> connections (run ([Connect, Connect] @ Signal_SIGINT # [Connect, Finish])
        (the_process (init no_faults Settings_js example_dirname example_config fresh_process)))
       = 1
   \<and> exit_status (run ([Connect, Connect] @ Signal_SIGINT # [Connect, Finish, Connect, Finish])
        (the_process (init no_faults Settings_js example_dirname example_config fresh_process)))
       = Some (Exited 0)
   \<and> \<not> accepting (run ([Connect, Connect] @ Signal_SIGINT # [Connect, Finish, Connect, Finish])
        (the_process (init no_faults Settings_js example_dirname example_config fresh_process)))"
proof -
  have f: "controller_fault no_faults = None" "app_fault no_faults = None"
    "listen_fault no_faults = None"
    by (simp_all add: no_faults_def)
  have p0: "exit_status fresh_process = None" "close_callbacks fresh_process = []"
    by (simp_all add: fresh_process_def)
  have t: "count_list [Connect, Connect] Signal_SIGINT = 0" by simp
  note th = SIGINT_drains_then_exits_0 [OF f p0 t, where rv = Settings_js
      and dirname = example_dirname and cfg = example_config]
  have c: "connections example_running = 2"
    by (simp add: example_running_def init_def init_try_def attempt_def no_faults_def
        listen_def process_on_SIGINT_def fresh_process_def step_def)
  from th [of "[Connect, Finish]"] th [of "[Connect, Finish, Connect, Finish]"] c
  show ?thesis by (simp add: example_running_def)
qed

end
